theory Spec2Isabelle
  imports Complex_Main
begin

section \<open>Values of the Python program\<close>

text \<open>
  The alert processor of \<^verbatim>\<open>lambda.py\<close> works on Python exceptions, on the values that
  \<^verbatim>\<open>json.loads\<close> produces, and on text. An exception is modelled by its class, as far as
  an \<^verbatim>\<open>except\<close> clause or an \<^verbatim>\<open>isinstance\<close> test of the program can tell classes
  apart, together with the text \<^verbatim>\<open>str(e)\<close>. Only subclasses of \<^verbatim>\<open>Exception\<close> are
  modelled, so that \<^verbatim>\<open>except Exception\<close> catches every value of the type.
\<close>

datatype exn_class =
    ClientError | JSONDecodeError | ValueError | TypeError | AttributeError
  | KeyError | IndexError | UnboundLocalError | OtherException

datatype exn = Exn (cls: exn_class) (message: string)


datatype json =
    JNull
  | JBool bool
  | JInt int
  | JFloat real
  | JString string
  | JArray "json list"
  | JObject "(string \<times> json) list"

text \<open>
  A Python \<^verbatim>\<open>dict\<close> with text keys is an association list with distinct keys in insertion
  order; \<^verbatim>\<open>d[k] = v\<close> replaces the value of an existing key in place and appends a new key.
\<close>

type_synonym pydict = "(string \<times> json) list"

fun setitem :: "string \<Rightarrow> json \<Rightarrow> pydict \<Rightarrow> pydict" where
  "setitem k v [] = [(k, v)]"
| "setitem k v (p # ps) = (if fst p = k then (k, v) # ps else p # setitem k v ps)"

text \<open>The truth value of a JSON value, as \<^verbatim>\<open>not x\<close> sees it.\<close>

fun truthy :: "json \<Rightarrow> bool" where
  "truthy JNull = False"
| "truthy (JBool b) = b"
| "truthy (JInt i) = (i \<noteq> 0)"
| "truthy (JFloat r) = (r \<noteq> 0)"
| "truthy (JString s) = (s \<noteq> [])"
| "truthy (JArray xs) = (xs \<noteq> [])"
| "truthy (JObject ps) = (ps \<noteq> [])"

subsection \<open>Text\<close>

text \<open>
  A text is a \<^typ>\<open>string\<close> with one character per code point, which covers the code
  points below 256. \<^verbatim>\<open>str.strip()\<close> removes the characters for which \<^verbatim>\<open>str.isspace\<close>
  holds from both ends; \<^verbatim>\<open>str.upper()\<close> is modelled on the letters whose capital is a single
  character of the same range (the capitals of the three others are no ASCII text, so the
  membership test of the severity check is not affected).
\<close>

definition is_space :: "char \<Rightarrow> bool" where
  "is_space c = (c \<in> set [CHR 0x09, CHR 0x0A, CHR 0x0B, CHR 0x0C, CHR 0x0D, CHR 0x1C,
     CHR 0x1D, CHR 0x1E, CHR 0x1F, CHR 0x20, CHR 0x85, CHR 0xA0])"

definition strip :: "string \<Rightarrow> string" where
  "strip s = rev (dropWhile is_space (rev (dropWhile is_space s)))"

definition lowercase_letters :: "string" where
  "lowercase_letters = ''abcdefghijklmnopqrstuvwxyz'' @
     [CHR 0xE0, CHR 0xE1, CHR 0xE2, CHR 0xE3, CHR 0xE4, CHR 0xE5, CHR 0xE6, CHR 0xE7,
      CHR 0xE8, CHR 0xE9, CHR 0xEA, CHR 0xEB, CHR 0xEC, CHR 0xED, CHR 0xEE, CHR 0xEF,
      CHR 0xF0, CHR 0xF1, CHR 0xF2, CHR 0xF3, CHR 0xF4, CHR 0xF5, CHR 0xF6, CHR 0xF8,
      CHR 0xF9, CHR 0xFA, CHR 0xFB, CHR 0xFC, CHR 0xFD, CHR 0xFE]"

definition uppercase_letters :: "string" where
  "uppercase_letters = ''ABCDEFGHIJKLMNOPQRSTUVWXYZ'' @
     [CHR 0xC0, CHR 0xC1, CHR 0xC2, CHR 0xC3, CHR 0xC4, CHR 0xC5, CHR 0xC6, CHR 0xC7,
      CHR 0xC8, CHR 0xC9, CHR 0xCA, CHR 0xCB, CHR 0xCC, CHR 0xCD, CHR 0xCE, CHR 0xCF,
      CHR 0xD0, CHR 0xD1, CHR 0xD2, CHR 0xD3, CHR 0xD4, CHR 0xD5, CHR 0xD6, CHR 0xD8,
      CHR 0xD9, CHR 0xDA, CHR 0xDB, CHR 0xDC, CHR 0xDD, CHR 0xDE]"

definition upper_char :: "char \<Rightarrow> char" where
  "upper_char c =
     (case map_of (zip lowercase_letters uppercase_letters) c of
        Some u \<Rightarrow> u
      | None \<Rightarrow> c)"

definition upper :: "string \<Rightarrow> string" where
  "upper s = map upper_char s"

definition startswith :: "string \<Rightarrow> string \<Rightarrow> bool" where
  "startswith s p = (take (length p) s = p)"

text \<open>\<^verbatim>\<open>needle in hay\<close> on two texts.\<close>

fun contains :: "string \<Rightarrow> string \<Rightarrow> bool" where
  "contains needle [] = (needle = [])"
| "contains needle (c # cs) = (startswith (c # cs) needle \<or> contains needle cs)"

text \<open>The slice \<^verbatim>\<open>s[a:-3]\<close>: it stops three characters before the end, and is empty when
  that is not after position \<open>a\<close>.\<close>

definition slice_to_minus3 :: "nat \<Rightarrow> string \<Rightarrow> string" where
  "slice_to_minus3 a s = drop a (take (length s - 3) s)"

section \<open>The response normalizer\<close>

text \<open>\<^verbatim>\<open>_create_fallback_analysis\<close>.\<close>

definition create_fallback_analysis :: "string \<Rightarrow> pydict" where
  "create_fallback_analysis error_msg =
     [(''severity'', JString ''HIGH''),
      (''category'', JString ''System Error''),
      (''summary'', JString (''Alert received but analysis failed: '' @ error_msg)),
      (''impact'', JString ''Unable to determine impact - manual review required''),
      (''recommendations'', JArray
         [JString ''Manual review required'',
          JString ''Check Meraki dashboard for details'',
          JString ''Contact system administrator if issues persist'']),
      (''requires_immediate_action'', JBool True),
      (''estimated_resolution_time'', JString ''Unknown'')]"

text \<open>The first lines of \<^verbatim>\<open>_parse_bedrock_response\<close>: the text that is handed to
  \<^verbatim>\<open>json.loads\<close>.\<close>

definition clean_response_text :: "string \<Rightarrow> string" where
  "clean_response_text response_text =
     (let t = strip response_text
      in if startswith t ''```json'' then strip (slice_to_minus3 7 t)
         else if startswith t ''```'' then strip (slice_to_minus3 3 t)
         else t)"

text \<open>
  \<^verbatim>\<open>_validate_analysis_response\<close>. The loop over \<^verbatim>\<open>defaults.items()\<close> replaces a field
  that is absent or falsy; the severity check reads \<^verbatim>\<open>response['severity'].upper()\<close>, which
  exists only on text, and stores \<^verbatim>\<open>'MEDIUM'\<close> when the capitalised text is not a valid
  severity. On a value that is no \<^verbatim>\<open>dict\<close> the first round of the loop raises
  \<^verbatim>\<open>TypeError\<close>: from \<^verbatim>\<open>key not in response\<close> on a value that is no container, from
  \<^verbatim>\<open>response[key]\<close> or from the assignment otherwise.
\<close>

definition defaults :: "pydict" where
  "defaults =
     [(''severity'', JString ''MEDIUM''),
      (''category'', JString ''Unknown''),
      (''summary'', JString ''Alert received but analysis incomplete''),
      (''impact'', JString ''Unable to determine impact''),
      (''recommendations'', JArray
         [JString ''Manual review required'', JString ''Check Meraki dashboard'']),
      (''requires_immediate_action'', JBool True),
      (''estimated_resolution_time'', JString ''Unknown'')]"

definition valid_severities :: "string list" where
  "valid_severities = [''CRITICAL'', ''HIGH'', ''MEDIUM'', ''LOW'', ''INFO'']"

text \<open>The test \<^verbatim>\<open>key not in response or not response[key]\<close> and one round of the loop.\<close>

definition absent_or_falsy :: "pydict \<Rightarrow> string \<Rightarrow> bool" where
  "absent_or_falsy response key =
     (case map_of response key of None \<Rightarrow> True | Some v \<Rightarrow> \<not> truthy v)"

definition fill_default :: "pydict \<Rightarrow> string \<times> json \<Rightarrow> pydict" where
  "fill_default response kd =
     (if absent_or_falsy response (fst kd) then setitem (fst kd) (snd kd) response
      else response)"

fun type_name :: "json \<Rightarrow> string" where
  "type_name JNull = ''NoneType''"
| "type_name (JBool b) = ''bool''"
| "type_name (JInt i) = ''int''"
| "type_name (JFloat r) = ''float''"
| "type_name (JString s) = ''str''"
| "type_name (JArray xs) = ''list''"
| "type_name (JObject ps) = ''dict''"

definition quoted :: "string \<Rightarrow> string" where
  "quoted s = [CHR 0x27] @ s @ [CHR 0x27]"

definition no_attribute :: "json \<Rightarrow> string \<Rightarrow> exn" where
  "no_attribute v name =
     Exn AttributeError (quoted (type_name v) @ '' object has no attribute '' @ quoted name)"

fun validate_analysis_response :: "json \<Rightarrow> exn + pydict" where
  "validate_analysis_response (JObject response0) =
     (let response = foldl fill_default response0 defaults
      in case map_of response ''severity'' of
           None \<Rightarrow> Inl (Exn KeyError (quoted ''severity''))
         | Some (JString s) \<Rightarrow>
             if upper s \<notin> set valid_severities
             then Inr (setitem ''severity'' (JString ''MEDIUM'') response)
             else Inr response
         | Some v \<Rightarrow> Inl (no_attribute v ''upper''))"
| "validate_analysis_response (JArray xs) =
     Inl (Exn TypeError ''list indices must be integers or slices, not str'')"
| "validate_analysis_response (JString s) =
     (if contains ''severity'' s
      then Inl (Exn TypeError (''string indices must be integers, not '' @ quoted ''str''))
      else Inl (Exn TypeError (quoted ''str'' @ '' object does not support item assignment'')))"
| "validate_analysis_response v =
     Inl (Exn TypeError (''argument of type '' @ quoted (type_name v) @ '' is not iterable''))"

text \<open>
  \<^verbatim>\<open>_parse_bedrock_response\<close>. \<^verbatim>\<open>json.loads\<close> is the library's parser and a parameter
  \<open>loads\<close> of the model. The \<^verbatim>\<open>try\<close> block has a handler for
  \<^verbatim>\<open>json.JSONDecodeError\<close> only; any other exception leaves the function.
\<close>

definition parse_bedrock_response :: "(string \<Rightarrow> exn + json) \<Rightarrow> string \<Rightarrow> exn + pydict" where
  "parse_bedrock_response loads response_text =
     (let attempt =
        (case loads (clean_response_text response_text) of
           Inl e \<Rightarrow> Inl e
         | Inr parsed_response \<Rightarrow> validate_analysis_response parsed_response)
      in case attempt of
           Inl e \<Rightarrow>
             if cls e = JSONDecodeError
             then Inr (create_fallback_analysis ''JSON parsing failed'')
             else Inl e
         | Inr r \<Rightarrow> Inr r)"

text \<open>A parser for examples: it knows the value of the listed texts and rejects every
  other text the way \<^verbatim>\<open>json.loads\<close> rejects a text that is no JSON.\<close>

definition loads_of :: "(string \<times> json) list \<Rightarrow> string \<Rightarrow> exn + json" where
  "loads_of table s =
     (case map_of table s of
        Some v \<Rightarrow> Inr v
      | None \<Rightarrow> Inl (Exn JSONDecodeError ''Expecting value: line 1 column 1 (char 0)''))"

section \<open>Configuration, environment and state\<close>

text \<open>
  The attributes that \<^verbatim>\<open>MerakiAlertProcessor.__init__\<close> sets: the primary model, the
  priority list of fallback models, and the dictionary from a model to its inference
  profile ARN (\<^verbatim>\<open>None\<close> when the environment variable is not set).
\<close>

record config =
  bedrock_model_id :: string
  fallback_models :: "string list"
  cross_region_models :: "(string \<times> string option) list"

definition MerakiAlertProcessor_init :: "(string \<Rightarrow> string option) \<Rightarrow> config" where
  "MerakiAlertProcessor_init environ =
     \<lparr>bedrock_model_id =
        (case environ ''BEDROCK_MODEL_ID'' of
           None \<Rightarrow> ''anthropic.claude-sonnet-4-20250514-v1:0''
         | Some v \<Rightarrow> v),
      fallback_models =
        [''anthropic.claude-sonnet-4-20250514-v1:0'',
         ''anthropic.claude-opus-4-20250514-v1:0'',
         ''anthropic.claude-3-7-sonnet-20250219-v1:0'',
         ''anthropic.claude-3-5-sonnet-20241022-v2:0'',
         ''anthropic.claude-3-5-sonnet-20240620-v1:0'',
         ''anthropic.claude-3-sonnet-20240229-v1:0'',
         ''anthropic.claude-3-haiku-20240307-v1:0'',
         ''anthropic.claude-instant-v1''],
      cross_region_models =
        [(''anthropic.claude-sonnet-4-20250514-v1:0'',
            environ ''BEDROCK_CLAUDE4_SONNET_PROFILE_ARN''),
         (''anthropic.claude-3-7-sonnet-20250219-v1:0'',
            environ ''BEDROCK_CLAUDE37_SONNET_PROFILE_ARN''),
         (''anthropic.claude-3-5-sonnet-20241022-v2:0'',
            environ ''BEDROCK_CLAUDE35_SONNET_V2_PROFILE_ARN''),
         (''anthropic.claude-3-5-sonnet-20240620-v1:0'',
            environ ''BEDROCK_CLAUDE35_SONNET_PROFILE_ARN''),
         (''anthropic.claude-3-sonnet-20240229-v1:0'',
            environ ''BEDROCK_CLAUDE3_SONNET_PROFILE_ARN''),
         (''anthropic.claude-3-haiku-20240307-v1:0'',
            environ ''BEDROCK_CLAUDE3_HAIKU_PROFILE_ARN'')]\<rparr>"

text \<open>The request that \<^verbatim>\<open>_invoke_bedrock_model\<close> serialises: one user message with the
  prompt, the token bound and the sampling parameters as they are written in the request.\<close>

record request_body =
  anthropic_version :: string
  max_tokens :: nat
  user_content :: string
  temperature :: string
  top_p :: string

definition make_request_body :: "string \<Rightarrow> request_body" where
  "make_request_body prompt =
     \<lparr>anthropic_version = ''bedrock-2023-05-31'', max_tokens = 1000,
      user_content = prompt, temperature = ''0.1'', top_p = ''0.9''\<rparr>"

text \<open>
  What the program reaches outside itself, over a world \<open>'w\<close> that each call may change:
  the parser \<^verbatim>\<open>json.loads\<close>; the rendering of the prompt text
  (\<^verbatim>\<open>_create_analysis_prompt\<close>, which returns a text or raises); the call
  \<^verbatim>\<open>bedrock_runtime.invoke_model\<close>, which returns the text of the reply body or raises;
  the two notification senders; and the clock.
\<close>

record 'w env =
  json_loads :: "string \<Rightarrow> exn + json"
  create_analysis_prompt :: "json \<Rightarrow> exn + string"
  invoke_model :: "'w \<Rightarrow> string \<Rightarrow> request_body \<Rightarrow> (exn + string) \<times> 'w"
  send_google_chat_message :: "'w \<Rightarrow> pydict \<Rightarrow> (exn + int) \<times> 'w"
  send_email_alert :: "'w \<Rightarrow> pydict \<Rightarrow> json \<Rightarrow> (exn + unit) \<times> 'w"
  utcnow :: "'w \<Rightarrow> string"

text \<open>
  The state threaded through the calls: the world, and two logs that record, in order, the
  \<^verbatim>\<open>modelId\<close> of every call of \<^verbatim>\<open>invoke_model\<close> and the \<^verbatim>\<open>model_id\<close> of every call of
  \<^verbatim>\<open>_invoke_bedrock_model\<close>.
\<close>

record 'w state =
  world :: 'w
  transport_log :: "string list"
  engine_log :: "string list"

definition init_state :: "'w \<Rightarrow> 'w state" where
  "init_state w = \<lparr>world = w, transport_log = [], engine_log = []\<rparr>"

definition call_invoke_model ::
  "'w env \<Rightarrow> string \<Rightarrow> request_body \<Rightarrow> 'w state \<Rightarrow> (exn + string) \<times> 'w state" where
  "call_invoke_model env target request st =
     (case invoke_model env (world st) target request of
        (r, w') \<Rightarrow> (r, st\<lparr>world := w', transport_log := transport_log st @ [target]\<rparr>))"

section \<open>The invocation engine\<close>

text \<open>Subscripts on JSON values: \<^verbatim>\<open>x[key]\<close> with a text key, and \<^verbatim>\<open>x[0]\<close>.\<close>

definition not_subscriptable :: "json \<Rightarrow> exn" where
  "not_subscriptable v = Exn TypeError (quoted (type_name v) @ '' object is not subscriptable'')"

fun getitem :: "json \<Rightarrow> string \<Rightarrow> exn + json" where
  "getitem (JObject ps) k =
     (case map_of ps k of None \<Rightarrow> Inl (Exn KeyError (quoted k)) | Some v \<Rightarrow> Inr v)"
| "getitem (JArray xs) k = Inl (Exn TypeError ''list indices must be integers or slices, not str'')"
| "getitem (JString s) k =
     Inl (Exn TypeError (''string indices must be integers, not '' @ quoted ''str''))"
| "getitem v k = Inl (not_subscriptable v)"

fun getitem0 :: "json \<Rightarrow> exn + json" where
  "getitem0 (JArray []) = Inl (Exn IndexError ''list index out of range'')"
| "getitem0 (JArray (x # xs)) = Inr x"
| "getitem0 (JObject ps) = Inl (Exn KeyError ''0'')"
| "getitem0 (JString []) = Inl (Exn IndexError ''string index out of range'')"
| "getitem0 (JString (c # cs)) = Inr (JString [c])"
| "getitem0 v = Inl (not_subscriptable v)"

text \<open>
  The end of \<^verbatim>\<open>_invoke_bedrock_model\<close>, after a reply has arrived: the body is parsed, the
  text of the first content block is read, and the normalizer is called on it (its first step,
  \<^verbatim>\<open>.strip()\<close>, exists only on text). There is no handler around these lines.
\<close>

definition read_reply :: "(string \<Rightarrow> exn + json) \<Rightarrow> string \<Rightarrow> exn + pydict" where
  "read_reply loads body =
     (case loads body of
        Inl e \<Rightarrow> Inl e
      | Inr response_body \<Rightarrow>
          (case getitem response_body ''content'' of
             Inl e \<Rightarrow> Inl e
           | Inr blocks \<Rightarrow>
               (case getitem0 blocks of
                  Inl e \<Rightarrow> Inl e
                | Inr block \<Rightarrow>
                    (case getitem block ''text'' of
                       Inl e \<Rightarrow> Inl e
                     | Inr (JString analysis_text) \<Rightarrow> parse_bedrock_response loads analysis_text
                     | Inr v \<Rightarrow> Inl (no_attribute v ''strip'')))))"

text \<open>\<^verbatim>\<open>self.cross_region_models.get(model_id)\<close>, and whether the result is truthy.\<close>

definition inference_profile_arn :: "config \<Rightarrow> string \<Rightarrow> string option" where
  "inference_profile_arn cfg model_id =
     (case map_of (cross_region_models cfg) model_id of None \<Rightarrow> None | Some v \<Rightarrow> v)"

definition has_profile :: "config \<Rightarrow> string \<Rightarrow> bool" where
  "has_profile cfg model_id =
     (case inference_profile_arn cfg model_id of None \<Rightarrow> False | Some arn \<Rightarrow> arn \<noteq> [])"

text \<open>
  \<^verbatim>\<open>_invoke_bedrock_model\<close>. The first call goes to the profile ARN when there is one and to
  the model id otherwise. The handler is \<^verbatim>\<open>except ClientError\<close>: an exception of another
  class is not caught; a \<^verbatim>\<open>ClientError\<close> whose text contains \<^verbatim>\<open>inference-profile\<close>, for
  a model with a profile, leads to one call with the model id, inside the handler, so that an
  exception of that call leaves the function; any other \<^verbatim>\<open>ClientError\<close> is raised again.
\<close>

definition invoke_bedrock_model ::
  "'w env \<Rightarrow> config \<Rightarrow> string \<Rightarrow> string \<Rightarrow> 'w state \<Rightarrow> (exn + pydict) \<times> 'w state" where
  "invoke_bedrock_model env cfg prompt model_id st0 =
     (let st = st0\<lparr>engine_log := engine_log st0 @ [model_id]\<rparr>;
          request = make_request_body prompt;
          target = (if has_profile cfg model_id
                    then the (inference_profile_arn cfg model_id) else model_id)
      in case call_invoke_model env target request st of
           (Inr response, st1) \<Rightarrow> (read_reply (json_loads env) response, st1)
         | (Inl e, st1) \<Rightarrow>
             if cls e = ClientError
             then if has_profile cfg model_id \<and> contains ''inference-profile'' (message e)
                  then (case call_invoke_model env model_id request st1 of
                          (Inr response, st2) \<Rightarrow> (read_reply (json_loads env) response, st2)
                        | (Inl e2, st2) \<Rightarrow> (Inl e2, st2))
                  else (Inl e, st1)
             else (Inl e, st1))"

section \<open>The fallback orchestrator\<close>

text \<open>
  The loop of the handler in \<^verbatim>\<open>_analyze_alert_with_bedrock\<close>. The prompt is \<open>None\<close>
  when \<^verbatim>\<open>_create_analysis_prompt\<close> raised: the variable \<^verbatim>\<open>prompt\<close> is then unbound, reading
  it inside the inner \<^verbatim>\<open>try\<close> raises \<^verbatim>\<open>UnboundLocalError\<close> before any call, and the inner
  handler catches that like any other exception. The loop gives \<open>Some\<close> result when a
  \<^verbatim>\<open>return\<close> inside it is reached and \<open>None\<close> when it runs to its end.
\<close>

fun try_fallback_models ::
  "'w env \<Rightarrow> config \<Rightarrow> string option \<Rightarrow> string list \<Rightarrow> 'w state
     \<Rightarrow> (exn + pydict) option \<times> 'w state" where
  "try_fallback_models env cfg prompt [] st = (None, st)"
| "try_fallback_models env cfg prompt (fallback_model # rest) st =
     (if fallback_model \<noteq> bedrock_model_id cfg
      then
        (case (case prompt of
                 None \<Rightarrow> (Inl (Exn UnboundLocalError
                   (''cannot access local variable '' @ quoted ''prompt'' @
                    '' where it is not associated with a value'')), st)
               | Some p \<Rightarrow> invoke_bedrock_model env cfg p fallback_model st) of
           (Inr result, st') \<Rightarrow> (Some (Inr result), st')
         | (Inl fallback_error, st') \<Rightarrow> try_fallback_models env cfg prompt rest st')
      else try_fallback_models env cfg prompt rest st)"

text \<open>\<^verbatim>\<open>_analyze_alert_with_bedrock\<close>: the handler \<^verbatim>\<open>except Exception as e\<close> receives the
  exception of the prompt construction or of the primary model, and the last line uses
  \<^verbatim>\<open>str(e)\<close> of that exception.\<close>

definition analyze_alert_with_bedrock ::
  "'w env \<Rightarrow> config \<Rightarrow> json \<Rightarrow> 'w state \<Rightarrow> (exn + pydict) \<times> 'w state" where
  "analyze_alert_with_bedrock env cfg webhook_data st =
     (let (attempt, prompt, st1) =
        (case create_analysis_prompt env webhook_data of
           Inl e \<Rightarrow> (Inl e, None, st)
         | Inr p \<Rightarrow>
             (case invoke_bedrock_model env cfg p (bedrock_model_id cfg) st of
                (r, st') \<Rightarrow> (r, Some p, st')))
      in case attempt of
           Inr result \<Rightarrow> (Inr result, st1)
         | Inl e \<Rightarrow>
             (case try_fallback_models env cfg prompt (fallback_models cfg) st1 of
                (Some r, st2) \<Rightarrow> (r, st2)
              | (None, st2) \<Rightarrow> (Inr (create_fallback_analysis (message e)), st2)))"

section \<open>Webhook processing\<close>








text \<open>The responses. The body is the dictionary that is given to \<^verbatim>\<open>json.dumps\<close>, and
  the timestamp is read from the clock.\<close>

record response =
  statusCode :: int
  headers :: "(string \<times> string) list"
  body :: pydict





section \<open>An environment and inputs for examples\<close>

text \<open>
  In the example environment the outcome of \<^verbatim>\<open>invoke_model\<close> depends on the target only,
  the prompt construction and the two senders have fixed outcomes, the clock stands still,
  and the world counts the calls that reached outside.
\<close>

definition example_env ::
  "(string \<Rightarrow> exn + json) \<Rightarrow> exn + string \<Rightarrow> (string \<Rightarrow> exn + string) \<Rightarrow> exn + int
     \<Rightarrow> exn + unit \<Rightarrow> nat env" where
  "example_env loads prompt outcome chat email =
     \<lparr>json_loads = loads,
      create_analysis_prompt = (\<lambda>webhook_data. prompt),
      invoke_model = (\<lambda>w target request. (outcome target, Suc w)),
      send_google_chat_message = (\<lambda>w analysis_result. (chat, Suc w)),
      send_email_alert = (\<lambda>w analysis_result webhook_data. (email, Suc w)),
      utcnow = (\<lambda>w. ''2025-01-01T00:00:00'')\<rparr>"

text \<open>A model with an inference profile, as the environment variables configure it.\<close>

definition sonnet4 :: "string" where
  "sonnet4 = ''anthropic.claude-sonnet-4-20250514-v1:0''"

definition sonnet4_profile :: "string" where
  "sonnet4_profile =
     ''arn:aws:bedrock:us-east-1::inference-profile/us.anthropic.claude-sonnet-4-20250514-v1:0''"

definition example_environ :: "string \<Rightarrow> string option" where
  "example_environ = map_of [(''BEDROCK_CLAUDE4_SONNET_PROFILE_ARN'', sonnet4_profile)]"

definition routing_error :: "exn" where
  "routing_error = Exn ClientError
     (''An error occurred (ValidationException) when calling the InvokeModel operation: '' @
      ''The provided inference-profile identifier is invalid'')"

definition throttling_error :: "exn" where
  "throttling_error = Exn ClientError
     (''An error occurred (ThrottlingException) when calling the InvokeModel operation: '' @
      ''Too many requests'')"

text \<open>A reply whose first content block holds the text \<^verbatim>\<open>{}\<close>, and the parser on the two
  texts involved.\<close>

definition empty_reply :: "string" where
  "empty_reply = ''{\"content\":[{\"text\":\"{}\"}]}''"

definition reply_loads :: "string \<Rightarrow> exn + json" where
  "reply_loads =
     loads_of [(empty_reply, JObject [(''content'', JArray [JObject [(''text'', JString ''{}'')]])]),
               (''{}'', JObject [])]"

text \<open>A configuration with the models \<open>A\<close>, \<open>B\<close> and \<open>C\<close> and no inference profile.\<close>

definition abc_config :: "string list \<Rightarrow> config" where
  "abc_config models =
     \<lparr>bedrock_model_id = ''A'', fallback_models = models, cross_region_models = []\<rparr>"

definition unavailable :: "string \<Rightarrow> exn + string" where
  "unavailable target = Inl (Exn ClientError (''model '' @ target @ '' is unavailable''))"

text \<open>Replies of a model, and the parser on the JSON texts involved.\<close>

definition low_reply :: "string" where
  "low_reply = ''```json\<newline>{\"severity\":\"low\"}\<newline>```''"

definition low_loads :: "string \<Rightarrow> exn + json" where
  "low_loads = loads_of [(''{\"severity\":\"low\"}'', JObject [(''severity'', JString ''low'')])]"


definition complete_assessment :: "bool \<Rightarrow> pydict" where
  "complete_assessment immediate =
     [(''severity'', JString ''HIGH''),
      (''category'', JString ''Connectivity''),
      (''summary'', JString ''Uplink lost on the appliance''),
      (''impact'', JString ''Site offline''),
      (''recommendations'', JArray [JString ''Check the uplink'']),
      (''requires_immediate_action'', JBool immediate),
      (''estimated_resolution_time'', JString ''1 hour'')]"

section \<open>Fence stripping\<close>

lemma slice_to_minus3_append:
  "length pre = a \<Longrightarrow> length tail = 3 \<Longrightarrow> slice_to_minus3 a (pre @ inner @ tail) = inner"
  by (simp add: slice_to_minus3_def)

lemma slice_to_minus3_short:
  "length pre = a \<Longrightarrow> length rest \<le> 3 \<Longrightarrow> slice_to_minus3 a (pre @ rest) = []"
  by (simp add: slice_to_minus3_def)

lemma strip_Nil: "strip [] = []"
  by (simp add: strip_def)

text \<open>
  Claim C10. Only the opening fence is tested. When the stripped text starts with
  \<^verbatim>\<open>```json\<close>, the text given to the parser is what lies between the first seven and the
  last three characters, stripped again, whatever the last three characters are; when fewer
  than three characters follow the marker, nothing is left. The same holds with three
  characters for a text that starts with \<^verbatim>\<open>```\<close> and not with \<^verbatim>\<open>```json\<close>. So a
  text with an opening fence and no closing fence loses its last three characters.
\<close>

theorem fence_stripping_checks_leading_marker_only:
  "(\<forall>inner tail. strip raw = ''```json'' @ inner @ tail \<and> length tail = 3 \<longrightarrow>
      clean_response_text raw = strip inner) \<and>
   (\<forall>rest. strip raw = ''```json'' @ rest \<and> length rest \<le> 3 \<longrightarrow>
      clean_response_text raw = []) \<and>
   (\<forall>inner tail. strip raw = ''```'' @ inner @ tail \<and> length tail = 3 \<and>
      \<not> startswith (strip raw) ''```json'' \<longrightarrow> clean_response_text raw = strip inner) \<and>
   (\<forall>rest. strip raw = ''```'' @ rest \<and> length rest \<le> 3 \<and>
      \<not> startswith (strip raw) ''```json'' \<longrightarrow> clean_response_text raw = [])"
proof (intro conjI allI impI)
  fix inner tail
  assume a: "strip raw = ''```json'' @ inner @ tail \<and> length tail = 3"
  then have fence: "startswith (strip raw) ''```json''"
    by (simp add: startswith_def)
  from a have "slice_to_minus3 7 (strip raw) = inner"
    using slice_to_minus3_append [of "''```json''" 7 tail inner] by simp
  with fence show "clean_response_text raw = strip inner"
    by (simp add: clean_response_text_def)
next
  fix rest
  assume a: "strip raw = ''```json'' @ rest \<and> length rest \<le> 3"
  then have fence: "startswith (strip raw) ''```json''"
    by (simp add: startswith_def)
  from a have "slice_to_minus3 7 (strip raw) = []"
    using slice_to_minus3_short [of "''```json''" 7 rest] by simp
  with fence show "clean_response_text raw = []"
    by (simp add: clean_response_text_def strip_Nil)
next
  fix inner tail
  assume a: "strip raw = ''```'' @ inner @ tail \<and> length tail = 3 \<and>
      \<not> startswith (strip raw) ''```json''"
  then have no_json: "\<not> startswith (strip raw) ''```json''"
    by blast
  from a have fence: "startswith (strip raw) ''```''"
    by (simp add: startswith_def)
  from a have "slice_to_minus3 3 (strip raw) = inner"
    using slice_to_minus3_append [of "''```''" 3 tail inner] by simp
  with fence no_json show "clean_response_text raw = strip inner"
    by (simp add: clean_response_text_def)
next
  fix rest
  assume a: "strip raw = ''```'' @ rest \<and> length rest \<le> 3 \<and>
      \<not> startswith (strip raw) ''```json''"
  then have no_json: "\<not> startswith (strip raw) ''```json''"
    by blast
  from a have fence: "startswith (strip raw) ''```''"
    by (simp add: startswith_def)
  from a have "slice_to_minus3 3 (strip raw) = []"
    using slice_to_minus3_short [of "''```''" 3 rest] by simp
  with fence no_json show "clean_response_text raw = []"
    by (simp add: clean_response_text_def strip_Nil)
qed

text \<open>Four texts with an opening fence and no closing fence: the last three characters of
  the JSON text are lost, and a short text is lost whole.\<close>

theorem fence_stripping_checks_leading_marker_only_witness:
  "clean_response_text ''  ```json\<newline>{\"a\":1}'' = ''{\"a\"''
   \<and> clean_response_text ''```json{}'' = []
   \<and> clean_response_text ''```{\"a\":1}'' = ''{\"a\"''
   \<and> clean_response_text ''````'' = []"
proof -
  have s1: "strip ''  ```json\<newline>{\"a\":1}'' = ''```json'' @ ''\<newline>{\"a\"'' @ '':1}''
      \<and> length '':1}'' = 3"
    by (simp add: strip_def is_space_def)
  have s2: "strip ''```json{}'' = ''```json'' @ ''{}'' \<and> length ''{}'' \<le> 3"
    by (simp add: strip_def is_space_def)
  have s3: "strip ''```{\"a\":1}'' = ''```'' @ ''{\"a\"'' @ '':1}'' \<and> length '':1}'' = 3
     \<and> \<not> startswith (strip ''```{\"a\":1}'') ''```json''"
    by (simp add: strip_def is_space_def startswith_def)
  have s4: "strip ''````'' = ''```'' @ ''`'' \<and> length ''`'' \<le> 3
     \<and> \<not> startswith (strip ''````'') ''```json''"
    by (simp add: strip_def is_space_def startswith_def)
  have e1: "strip ''\<newline>{\"a\"'' = ''{\"a\"''" and e3: "strip ''{\"a\"'' = ''{\"a\"''"
    by (simp_all add: strip_def is_space_def)
  show ?thesis
    using fence_stripping_checks_leading_marker_only [of "''  ```json\<newline>{\"a\":1}''"]
      fence_stripping_checks_leading_marker_only [of "''```json{}''"]
      fence_stripping_checks_leading_marker_only [of "''```{\"a\":1}''"]
      fence_stripping_checks_leading_marker_only [of "''````''"] s1 s2 s3 s4 e1 e3
    by metis
qed

section \<open>The cascade catches every exception\<close>

lemma call_invoke_model_engine_log:
  "call_invoke_model env target request st = (r, st') \<Longrightarrow> engine_log st' = engine_log st"
  by (auto simp: call_invoke_model_def split: prod.splits)

lemma invoke_bedrock_model_engine_log:
  assumes "invoke_bedrock_model env cfg prompt m st = (r, st')"
  shows "engine_log st' = engine_log st @ [m]"
proof -
  define st0 where "st0 = st\<lparr>engine_log := engine_log st @ [m]\<rparr>"
  define request where "request = make_request_body prompt"
  define target where "target = (if has_profile cfg m
                    then the (inference_profile_arn cfg m) else m)"
  obtain r1 st1 where c1: "call_invoke_model env target request st0 = (r1, st1)"
    by (cases "call_invoke_model env target request st0")
  then have l1: "engine_log st1 = engine_log st @ [m]"
    using call_invoke_model_engine_log [OF c1] by (simp add: st0_def)
  obtain r2 st2 where c2: "call_invoke_model env m request st1 = (r2, st2)"
    by (cases "call_invoke_model env m request st1")
  then have l2: "engine_log st2 = engine_log st @ [m]"
    using call_invoke_model_engine_log [OF c2] l1 by simp
  have "st' = st1 \<or> st' = st2"
    using assms c1 c2 
    unfolding invoke_bedrock_model_def Let_def st0_def [symmetric] request_def [symmetric]
      target_def [symmetric]
    by (simp split: sum.splits if_splits)
  with l1 l2 show ?thesis by auto
qed


lemma try_fallback_models_result:
  "try_fallback_models env cfg prompt ms st = (Some r, st') \<Longrightarrow> \<exists>a. r = Inr a"
proof (induction ms arbitrary: st)
  case Nil
  then show ?case by simp
next
  case (Cons m ms)
  show ?case
  proof (cases "m = bedrock_model_id cfg")
    case True
    with Cons show ?thesis by simp
  next
    case False
    show ?thesis
    proof (cases prompt)
      case None
      with False Cons.prems have "try_fallback_models env cfg prompt ms st = (Some r, st')"
        by simp
      then show ?thesis by (rule Cons.IH)
    next
      case (Some p)
      obtain r1 st1 where i: "invoke_bedrock_model env cfg p m st = (r1, st1)"
        by (cases "invoke_bedrock_model env cfg p m st")
      show ?thesis
      proof (cases r1)
        case (Inr a)
        with False Some i Cons.prems show ?thesis by auto
      next
        case (Inl e)
        with False Some i Cons.prems
        have "try_fallback_models env cfg prompt ms st1 = (Some r, st')"
          by simp
        then show ?thesis by (rule Cons.IH)
      qed
    qed
  qed
qed


lemma analyze_after_failure:
  "\<exists>result st2. (case try_fallback_models env cfg prompt ms sta of
        (Some r, st2) \<Rightarrow> (r, st2)
      | (None, st2) \<Rightarrow> (Inr (create_fallback_analysis msg), st2)) = (Inr result, st2)"
proof -
  obtain r st2 where t: "try_fallback_models env cfg prompt ms sta = (r, st2)"
    by (cases "try_fallback_models env cfg prompt ms sta")
  show ?thesis
  proof (cases r)
    case None
    with t show ?thesis by simp
  next
    case (Some x)
    with t obtain res where "x = Inr res"
      using try_fallback_models_result by blast
    with t Some show ?thesis by simp
  qed
qed

lemma analyze_returns:
  "\<exists>result st'. analyze_alert_with_bedrock env cfg webhook_data st = (Inr result, st')"
proof (cases "create_analysis_prompt env webhook_data")
  case (Inl e)
  then show ?thesis
    using analyze_after_failure [where env = env and cfg = cfg and prompt = None
        and ms = "fallback_models cfg" and sta = st and msg = "message e"]
    by (simp add: analyze_alert_with_bedrock_def)
next
  case (Inr p)
  obtain r st1 where i: "invoke_bedrock_model env cfg p (bedrock_model_id cfg) st = (r, st1)"
    by (cases "invoke_bedrock_model env cfg p (bedrock_model_id cfg) st")
  show ?thesis
  proof (cases r)
    case (Inr result)
    with \<open>create_analysis_prompt env webhook_data = Inr p\<close> i show ?thesis
      by (simp add: analyze_alert_with_bedrock_def)
  next
    case (Inl e)
    with \<open>create_analysis_prompt env webhook_data = Inr p\<close> i show ?thesis
      using analyze_after_failure [where env = env and cfg = cfg and prompt = "Some p"
        and ms = "fallback_models cfg" and sta = st1 and msg = "message e"]
      by (simp add: analyze_alert_with_bedrock_def)
  qed
qed

section \<open>Duplicates in the priority list\<close>

lemma count_list_take: "count_list (take k xs) m \<le> count_list xs m"
proof (induction xs arbitrary: k)
  case Nil
  then show ?case by simp
next
  case (Cons x xs)
  then show ?case by (cases k) auto
qed

lemma count_list_filter:
  "count_list (filter P xs) m = (if P m then count_list xs m else 0)"
  by (induction xs) auto

lemma try_fallback_models_unbound_prompt:
  "try_fallback_models env cfg None ms st = (r, st') \<Longrightarrow> r = None \<and> st' = st"
  by (induction ms) (auto split: if_splits)

lemma try_fallback_models_engine_log:
  "try_fallback_models env cfg prompt ms st = (r, st') \<Longrightarrow>
     \<exists>k. engine_log st' = engine_log st @ take k (filter (\<lambda>m. m \<noteq> bedrock_model_id cfg) ms)"
proof (induction ms arbitrary: st)
  case Nil
  then show ?case by simp
next
  case (Cons m ms)
  show ?case
  proof (cases "m = bedrock_model_id cfg")
    case True
    with Cons show ?thesis by simp
  next
    case False
    show ?thesis
    proof (cases prompt)
      case None
      with Cons.prems have "st' = st"
        using try_fallback_models_unbound_prompt by blast
      then have "engine_log st' = engine_log st @
          take 0 (filter (\<lambda>m. m \<noteq> bedrock_model_id cfg) (m # ms))"
        by simp
      then show ?thesis by blast
    next
      case (Some p)
      obtain r1 st1 where i: "invoke_bedrock_model env cfg p m st = (r1, st1)"
        by (cases "invoke_bedrock_model env cfg p m st")
      then have log1: "engine_log st1 = engine_log st @ [m]"
        by (rule invoke_bedrock_model_engine_log)
      show ?thesis
      proof (cases r1)
        case (Inr a)
        with False Some i Cons.prems have "st' = st1" by simp
        with log1 False have "engine_log st' = engine_log st @
            take 1 (filter (\<lambda>m. m \<noteq> bedrock_model_id cfg) (m # ms))"
          by simp
        then show ?thesis by blast
      next
        case (Inl e)
        with False Some i Cons.prems have "try_fallback_models env cfg prompt ms st1 = (r, st')"
          by simp
        then obtain k where "engine_log st' =
            engine_log st1 @ take k (filter (\<lambda>m. m \<noteq> bedrock_model_id cfg) ms)"
          using Cons.IH by blast
        with log1 False have "engine_log st' = engine_log st @
            take (Suc k) (filter (\<lambda>m. m \<noteq> bedrock_model_id cfg) (m # ms))"
          by simp
        then show ?thesis by blast
      qed
    qed
  qed
qed


text \<open>
  Claim C7, as amended. The loop skips every entry that equals the primary model, and nothing
  else: in one cascade the primary model is invoked at most once, and any other model at most
  as often as it occurs in the priority list. So each model is invoked at most once when the
  entries other than the primary are distinct; a model other than the primary that is listed
  twice and fails is invoked twice.
\<close>

theorem cascade_never_reinvokes_primary:
  assumes "analyze_alert_with_bedrock env cfg webhook_data st = (r, st')"
  shows "\<exists>new. engine_log st' = engine_log st @ new \<and>
           count_list new (bedrock_model_id cfg) \<le> 1 \<and>
           (\<forall>m. m \<noteq> bedrock_model_id cfg \<longrightarrow>
              count_list new m \<le> count_list (fallback_models cfg) m)"
proof -
  let ?primary = "bedrock_model_id cfg"
  let ?others = "filter (\<lambda>m. m \<noteq> ?primary) (fallback_models cfg)"
  have bound: "count_list (pre @ take k ?others) ?primary = count_list pre ?primary \<and>
      (\<forall>m. m \<noteq> ?primary \<longrightarrow> count_list (pre @ take k ?others) m
          \<le> count_list pre m + count_list (fallback_models cfg) m)" for pre k
  proof (intro conjI allI impI)
    have "count_list (take k ?others) ?primary \<le> count_list ?others ?primary"
      by (rule count_list_take)
    then show "count_list (pre @ take k ?others) ?primary = count_list pre ?primary"
      by (simp add: count_list_filter)
  next
    fix m assume "m \<noteq> ?primary"
    have "count_list (take k ?others) m \<le> count_list ?others m"
      by (rule count_list_take)
    with \<open>m \<noteq> ?primary\<close> show "count_list (pre @ take k ?others) m
          \<le> count_list pre m + count_list (fallback_models cfg) m"
      by (simp add: count_list_filter)
  qed
  show ?thesis
  proof (cases "create_analysis_prompt env webhook_data")
    case (Inl e)
    obtain r2 st2 where t: "try_fallback_models env cfg None (fallback_models cfg) st = (r2, st2)"
      by (cases "try_fallback_models env cfg None (fallback_models cfg) st")
    then have "st2 = st"
      using try_fallback_models_unbound_prompt by blast
    with Inl t assms have "st' = st"
      by (auto simp: analyze_alert_with_bedrock_def split: option.splits)
    then have "engine_log st' = engine_log st @ []" by simp
    then show ?thesis by fastforce
  next
    case (Inr p)
    obtain r1 st1 where i: "invoke_bedrock_model env cfg p ?primary st = (r1, st1)"
      by (cases "invoke_bedrock_model env cfg p ?primary st")
    then have log1: "engine_log st1 = engine_log st @ [?primary]"
      by (rule invoke_bedrock_model_engine_log)
    show ?thesis
    proof (cases r1)
      case (Inr result)
      with \<open>create_analysis_prompt env webhook_data = Inr p\<close> i assms have "st' = st1"
        by (simp add: analyze_alert_with_bedrock_def)
      with log1 have "engine_log st' = engine_log st @ [?primary]" by simp
      then show ?thesis by fastforce
    next
      case (Inl e)
      obtain r2 st2 where t:
        "try_fallback_models env cfg (Some p) (fallback_models cfg) st1 = (r2, st2)"
        by (cases "try_fallback_models env cfg (Some p) (fallback_models cfg) st1")
      then obtain k where k: "engine_log st2 = engine_log st1 @ take k ?others"
        using try_fallback_models_engine_log by blast
      from Inl \<open>create_analysis_prompt env webhook_data = Inr p\<close> i t assms have "st' = st2"
        by (auto simp: analyze_alert_with_bedrock_def split: option.splits)
      with k log1 have "engine_log st' = engine_log st @ ([?primary] @ take k ?others)"
        by simp
      moreover have "count_list ([?primary] @ take k ?others) ?primary \<le> 1"
        using bound [of "[?primary]" k] by simp
      moreover have "\<forall>m. m \<noteq> ?primary \<longrightarrow>
          count_list ([?primary] @ take k ?others) m \<le> count_list (fallback_models cfg) m"
        using bound [of "[?primary]" k] by simp
      ultimately show ?thesis by blast
    qed
  qed
qed

text \<open>With the list \<open>[A, B, A, C]\<close> and every model failing, no model is invoked twice.\<close>

theorem cascade_never_reinvokes_primary_witness:
  "\<exists>new. engine_log (snd (analyze_alert_with_bedrock
       (example_env (loads_of []) (Inr ''prompt'') unavailable (Inr 200) (Inr ()))
       (abc_config [''A'', ''B'', ''A'', ''C'']) JNull (init_state 0))) = new \<and>
     count_list new ''A'' \<le> 1 \<and> count_list new ''B'' \<le> 1 \<and> count_list new ''C'' \<le> 1"
proof -
  let ?env = "example_env (loads_of []) (Inr ''prompt'') unavailable (Inr 200) (Inr ())"
  let ?cfg = "abc_config [''A'', ''B'', ''A'', ''C'']"
  obtain r st' where a: "analyze_alert_with_bedrock ?env ?cfg JNull (init_state 0) = (r, st')"
    by (cases "analyze_alert_with_bedrock ?env ?cfg JNull (init_state 0)")
  have "\<exists>new. engine_log st' = engine_log (init_state (0::nat)) @ new \<and>
      count_list new (bedrock_model_id ?cfg) \<le> 1 \<and>
      (\<forall>m. m \<noteq> bedrock_model_id ?cfg \<longrightarrow>
         count_list new m \<le> count_list (fallback_models ?cfg) m)"
    by (rule cascade_never_reinvokes_primary [OF a])
  then obtain new where n: "engine_log st' = engine_log (init_state (0::nat)) @ new \<and>
      count_list new (bedrock_model_id ?cfg) \<le> 1 \<and>
      (\<forall>m. m \<noteq> bedrock_model_id ?cfg \<longrightarrow>
         count_list new m \<le> count_list (fallback_models ?cfg) m)" ..
  then have log: "engine_log st' = new"
    by (simp add: init_state_def)
  from n have a1: "count_list new ''A'' \<le> 1"
    by (simp add: abc_config_def)
  from n have others: "\<forall>m. m \<noteq> ''A'' \<longrightarrow>
      count_list new m \<le> count_list [''A'', ''B'', ''A'', ''C''] m"
    by (simp add: abc_config_def)
  have b1: "count_list new ''B'' \<le> 1"
    using others [rule_format, of "''B''"] by simp
  have c1: "count_list new ''C'' \<le> 1"
    using others [rule_format, of "''C''"] by simp
  from a log have "engine_log (snd (analyze_alert_with_bedrock ?env ?cfg JNull (init_state 0))) = new"
    by simp
  with a1 b1 c1 show ?thesis by (intro exI conjI)
qed

text \<open>The claim as stated fails: with the primary \<open>A\<close>, the list \<open>[B, B]\<close> and every
  model failing, the engine is invoked for \<open>B\<close> twice.\<close>

theorem cascade_duplicate_counterexample:
  "analyze_alert_with_bedrock
     (example_env (loads_of []) (Inr ''prompt'') unavailable (Inr 200) (Inr ()))
     (abc_config [''B'', ''B'']) JNull (init_state 0) =
   (Inr (create_fallback_analysis ''model A is unavailable''),
    \<lparr>world = 3, transport_log = [''A'', ''B'', ''B''], engine_log = [''A'', ''B'', ''B'']\<rparr>)
   \<and> count_list [''A'', ''B'', ''B''] ''B'' = 2"
  by code_simp

section \<open>Order of the cascade\<close>

text \<open>
  Claim C8. With the primary model \<open>A\<close> and the priority list \<open>[A, B, C]\<close>, when the
  invocation of \<open>A\<close> fails and the invocation of \<open>B\<close> that follows succeeds, the result is
  the result of \<open>B\<close>, the engine has been invoked for \<open>A\<close> and then for \<open>B\<close>, and for
  nothing else: a model \<open>C\<close> other than \<open>A\<close> and \<open>B\<close> has not been invoked.
\<close>

theorem cascade_stops_at_first_success:
  assumes cfg: "bedrock_model_id cfg = A" "fallback_models cfg = [A, B, C]" "B \<noteq> A"
    and prompt: "create_analysis_prompt env webhook_data = Inr p"
    and primary: "invoke_bedrock_model env cfg p A st = (Inl e, st1)"
    and second: "invoke_bedrock_model env cfg p B st1 = (Inr result, st2)"
  shows "analyze_alert_with_bedrock env cfg webhook_data st = (Inr result, st2) \<and>
         engine_log st2 = engine_log st @ [A, B] \<and>
         (C \<noteq> A \<and> C \<noteq> B \<longrightarrow> count_list (engine_log st2) C = count_list (engine_log st) C)"
proof -
  have loop: "try_fallback_models env cfg (Some p) [A, B, C] st1 = (Some (Inr result), st2)"
    using cfg second by simp
  have res: "analyze_alert_with_bedrock env cfg webhook_data st = (Inr result, st2)"
    using cfg prompt primary loop by (simp add: analyze_alert_with_bedrock_def)
  have log: "engine_log st2 = engine_log st @ [A, B]"
    using invoke_bedrock_model_engine_log [OF primary]
      invoke_bedrock_model_engine_log [OF second] by simp
  from res log show ?thesis by simp
qed

text \<open>Model \<open>A\<close> is unavailable and model \<open>B\<close> replies: two calls are made, and the
  result is the normalized reply of \<open>B\<close>.\<close>

theorem cascade_stops_at_first_success_witness:
  "analyze_alert_with_bedrock
     (example_env reply_loads (Inr ''prompt'') (unavailable(''B'' := Inr empty_reply))
        (Inr 200) (Inr ()))
     (abc_config [''A'', ''B'', ''C'']) JNull (init_state 0) =
   (Inr defaults, \<lparr>world = 2, transport_log = [''A'', ''B''], engine_log = [''A'', ''B'']\<rparr>) \<and>
   engine_log \<lparr>world = 2::nat, transport_log = [''A'', ''B''], engine_log = [''A'', ''B'']\<rparr> =
     engine_log (init_state (0::nat)) @ [''A'', ''B''] \<and>
   count_list (engine_log \<lparr>world = 2::nat, transport_log = [''A'', ''B''],
     engine_log = [''A'', ''B'']\<rparr>) ''C'' = count_list (engine_log (init_state (0::nat))) ''C''"
proof -
  let ?env = "example_env reply_loads (Inr ''prompt'') (unavailable(''B'' := Inr empty_reply))
        (Inr 200) (Inr ())"
  let ?cfg = "abc_config [''A'', ''B'', ''C'']"
  have cfg: "bedrock_model_id ?cfg = ''A''" "fallback_models ?cfg = [''A'', ''B'', ''C'']"
    "''B'' \<noteq> ''A''"
    by (simp_all add: abc_config_def)
  have prompt: "create_analysis_prompt ?env JNull = Inr ''prompt''"
    by (simp add: example_env_def)
  have primary: "invoke_bedrock_model ?env ?cfg ''prompt'' ''A'' (init_state 0) =
      (Inl (Exn ClientError ''model A is unavailable''),
       \<lparr>world = 1, transport_log = [''A''], engine_log = [''A'']\<rparr>)"
    by code_simp
  have second: "invoke_bedrock_model ?env ?cfg ''prompt'' ''B''
       \<lparr>world = 1, transport_log = [''A''], engine_log = [''A'']\<rparr> =
      (Inr defaults, \<lparr>world = 2, transport_log = [''A'', ''B''], engine_log = [''A'', ''B'']\<rparr>)"
    by code_simp
  have "''C'' \<noteq> ''A'' \<and> ''C'' \<noteq> ''B''" by simp
  with cascade_stops_at_first_success [OF cfg prompt primary second]
  show ?thesis by simp
qed

section \<open>The retry inside the engine\<close>

text \<open>
  Claim C2. Let a model have a non-empty inference profile ARN, and let the call addressed
  to the ARN fail with the exception \<open>e\<close>. When \<open>e\<close> is a \<^verbatim>\<open>ClientError\<close> whose text
  contains \<^verbatim>\<open>inference-profile\<close>, one more call is made, to the model id, and its outcome
  is final: its exception is raised, or its reply is read; the transport has been called
  twice in all. Otherwise no further call is made and \<open>e\<close> itself is raised.
\<close>

theorem invoke_retries_once_on_routing_failure:
  assumes arn: "inference_profile_arn cfg model_id = Some arn" "arn \<noteq> []"
    and first: "invoke_model env (world st) arn (make_request_body prompt) = (Inl e, w1)"
  shows "(cls e = ClientError \<and> contains ''inference-profile'' (message e) \<longrightarrow>
          (\<forall>r2 w2. invoke_model env w1 model_id (make_request_body prompt) = (r2, w2) \<longrightarrow>
             invoke_bedrock_model env cfg prompt model_id st =
               ((case r2 of Inl e2 \<Rightarrow> Inl e2 | Inr reply \<Rightarrow> read_reply (json_loads env) reply),
                \<lparr>world = w2, transport_log = transport_log st @ [arn, model_id],
                 engine_log = engine_log st @ [model_id]\<rparr>))) \<and>
         (\<not> (cls e = ClientError \<and> contains ''inference-profile'' (message e)) \<longrightarrow>
            invoke_bedrock_model env cfg prompt model_id st =
              (Inl e, \<lparr>world = w1, transport_log = transport_log st @ [arn],
                 engine_log = engine_log st @ [model_id]\<rparr>))"
proof -
  have hp: "has_profile cfg model_id"
    using arn by (simp add: has_profile_def)
  define st0 where "st0 = st\<lparr>engine_log := engine_log st @ [model_id]\<rparr>"
  define st1 where "st1 = \<lparr>world = w1, transport_log = transport_log st @ [arn],
                 engine_log = engine_log st @ [model_id]\<rparr>"
  have c1: "call_invoke_model env arn (make_request_body prompt) st0 = (Inl e, st1)"
    using first by (simp add: call_invoke_model_def st0_def st1_def)
  have unfold: "invoke_bedrock_model env cfg prompt model_id st =
     (if cls e = ClientError
      then if contains ''inference-profile'' (message e)
           then (case call_invoke_model env model_id (make_request_body prompt) st1 of
                   (Inr response, st2) \<Rightarrow> (read_reply (json_loads env) response, st2)
                 | (Inl e2, st2) \<Rightarrow> (Inl e2, st2))
           else (Inl e, st1)
      else (Inl e, st1))"
    using hp arn c1 by (simp add: invoke_bedrock_model_def Let_def st0_def [symmetric])
  show ?thesis
  proof (intro conjI impI allI)
    fix r2 w2
    assume routing: "cls e = ClientError \<and> contains ''inference-profile'' (message e)"
      and second: "invoke_model env w1 model_id (make_request_body prompt) = (r2, w2)"
    have "call_invoke_model env model_id (make_request_body prompt) st1 =
        (r2, \<lparr>world = w2, transport_log = transport_log st @ [arn, model_id],
                 engine_log = engine_log st @ [model_id]\<rparr>)"
      using second by (simp add: call_invoke_model_def st1_def)
    with routing unfold show "invoke_bedrock_model env cfg prompt model_id st =
               ((case r2 of Inl e2 \<Rightarrow> Inl e2 | Inr reply \<Rightarrow> read_reply (json_loads env) reply),
                \<lparr>world = w2, transport_log = transport_log st @ [arn, model_id],
                 engine_log = engine_log st @ [model_id]\<rparr>)"
      by (simp split: sum.splits)
  next
    assume "\<not> (cls e = ClientError \<and> contains ''inference-profile'' (message e))"
    with unfold show "invoke_bedrock_model env cfg prompt model_id st =
              (Inl e, \<lparr>world = w1, transport_log = transport_log st @ [arn],
                 engine_log = engine_log st @ [model_id]\<rparr>)"
      by (auto simp: st1_def)
  qed
qed

text \<open>The profile of the model is rejected and the direct call replies; the profile is
  rejected and the direct call is throttled; the call to the profile is throttled.\<close>

theorem invoke_retries_once_on_routing_failure_witness:
  "invoke_bedrock_model
     (example_env reply_loads (Inr ''prompt'')
        (unavailable(sonnet4_profile := Inl routing_error, sonnet4 := Inr empty_reply))
        (Inr 200) (Inr ()))
     (MerakiAlertProcessor_init example_environ) ''prompt'' sonnet4 (init_state 0) =
   (Inr defaults,
    \<lparr>world = 2, transport_log = [sonnet4_profile, sonnet4], engine_log = [sonnet4]\<rparr>) \<and>
   invoke_bedrock_model
     (example_env reply_loads (Inr ''prompt'')
        (unavailable(sonnet4_profile := Inl routing_error, sonnet4 := Inl throttling_error))
        (Inr 200) (Inr ()))
     (MerakiAlertProcessor_init example_environ) ''prompt'' sonnet4 (init_state 0) =
   (Inl throttling_error,
    \<lparr>world = 2, transport_log = [sonnet4_profile, sonnet4], engine_log = [sonnet4]\<rparr>) \<and>
   invoke_bedrock_model
     (example_env reply_loads (Inr ''prompt'')
        (unavailable(sonnet4_profile := Inl throttling_error, sonnet4 := Inr empty_reply))
        (Inr 200) (Inr ()))
     (MerakiAlertProcessor_init example_environ) ''prompt'' sonnet4 (init_state 0) =
   (Inl throttling_error,
    \<lparr>world = 1, transport_log = [sonnet4_profile], engine_log = [sonnet4]\<rparr>)"
proof -
  let ?cfg = "MerakiAlertProcessor_init example_environ"
  let ?env1 = "example_env reply_loads (Inr ''prompt'')
        (unavailable(sonnet4_profile := Inl routing_error, sonnet4 := Inr empty_reply))
        (Inr 200) (Inr ())"
  let ?env2 = "example_env reply_loads (Inr ''prompt'')
        (unavailable(sonnet4_profile := Inl routing_error, sonnet4 := Inl throttling_error))
        (Inr 200) (Inr ())"
  let ?env3 = "example_env reply_loads (Inr ''prompt'')
        (unavailable(sonnet4_profile := Inl throttling_error, sonnet4 := Inr empty_reply))
        (Inr 200) (Inr ())"
  have arn: "inference_profile_arn ?cfg sonnet4 = Some sonnet4_profile" "sonnet4_profile \<noteq> []"
    by code_simp+
  have routing: "cls routing_error = ClientError \<and>
      contains ''inference-profile'' (message routing_error)"
    by code_simp
  have other: "\<not> (cls throttling_error = ClientError \<and>
      contains ''inference-profile'' (message throttling_error))"
    by code_simp
  have first1: "invoke_model ?env1 (world (init_state 0)) sonnet4_profile
      (make_request_body ''prompt'') = (Inl routing_error, 1)"
    by code_simp
  have second1: "invoke_model ?env1 1 sonnet4 (make_request_body ''prompt'') =
      (Inr empty_reply, 2)"
    by code_simp
  have first2: "invoke_model ?env2 (world (init_state 0)) sonnet4_profile
      (make_request_body ''prompt'') = (Inl routing_error, 1)"
    by code_simp
  have second2: "invoke_model ?env2 1 sonnet4 (make_request_body ''prompt'') =
      (Inl throttling_error, 2)"
    by code_simp
  have first3: "invoke_model ?env3 (world (init_state 0)) sonnet4_profile
      (make_request_body ''prompt'') = (Inl throttling_error, 1)"
    by code_simp
  have reply: "read_reply (json_loads ?env1) empty_reply = Inr defaults"
    by code_simp
  have logs: "transport_log (init_state (0::nat)) = []" "engine_log (init_state (0::nat)) = []"
    by (simp_all add: init_state_def)
  have r1: "invoke_bedrock_model ?env1 ?cfg ''prompt'' sonnet4 (init_state 0) =
      (Inr defaults,
       \<lparr>world = 2, transport_log = [sonnet4_profile, sonnet4], engine_log = [sonnet4]\<rparr>)"
    using invoke_retries_once_on_routing_failure [OF arn first1] routing second1 reply logs
    by simp
  have r2: "invoke_bedrock_model ?env2 ?cfg ''prompt'' sonnet4 (init_state 0) =
      (Inl throttling_error,
       \<lparr>world = 2, transport_log = [sonnet4_profile, sonnet4], engine_log = [sonnet4]\<rparr>)"
    using invoke_retries_once_on_routing_failure [OF arn first2] routing second2 logs
    by simp
  have r3: "invoke_bedrock_model ?env3 ?cfg ''prompt'' sonnet4 (init_state 0) =
      (Inl throttling_error,
       \<lparr>world = 1, transport_log = [sonnet4_profile], engine_log = [sonnet4]\<rparr>)"
    using invoke_retries_once_on_routing_failure [OF arn first3] other logs
    by simp
  from r1 r2 r3 show ?thesis by (intro conjI)
qed

section \<open>The exhausted cascade\<close>

lemma try_fallback_models_all_fail:
  assumes "\<forall>m s. m \<in> set ms \<and> m \<noteq> bedrock_model_id cfg \<longrightarrow>
      (\<exists>e' s'. invoke_bedrock_model env cfg p m s = (Inl e', s'))"
  shows "\<exists>st2. try_fallback_models env cfg (Some p) ms st = (None, st2)"
  using assms
proof (induction ms arbitrary: st)
  case Nil
  then show ?case by simp
next
  case (Cons m ms)
  then have rest: "\<And>s. \<exists>st2. try_fallback_models env cfg (Some p) ms s = (None, st2)"
    by simp
  show ?case
  proof (cases "m = bedrock_model_id cfg")
    case True
    with rest [of st] show ?thesis by simp
  next
    case False
    with Cons.prems obtain e' s' where "invoke_bedrock_model env cfg p m st = (Inl e', s')"
      by fastforce
    with False rest [of s'] show ?thesis by simp
  qed
qed

text \<open>
  Claim C3, as amended. When the primary model fails with the exception \<open>e\<close> and every other
  model of the priority list fails whenever it is invoked, the result is the fallback
  assessment: severity \<^verbatim>\<open>HIGH\<close>, category \<^verbatim>\<open>System Error\<close>, the impact and the three
  recommendations as fixed, immediate action required, resolution time \<^verbatim>\<open>Unknown\<close>, and a
  summary that embeds \<^verbatim>\<open>str(e)\<close>, the message of the failure of the primary model, which is
  the first failure of the cascade. Nothing is raised.
\<close>

theorem exhausted_cascade_reports_primary_failure:
  assumes prompt: "create_analysis_prompt env webhook_data = Inr p"
    and primary: "invoke_bedrock_model env cfg p (bedrock_model_id cfg) st = (Inl e, st1)"
    and others: "\<forall>m s. m \<in> set (fallback_models cfg) \<and> m \<noteq> bedrock_model_id cfg \<longrightarrow>
      (\<exists>e' s'. invoke_bedrock_model env cfg p m s = (Inl e', s'))"
  shows "\<exists>st2. analyze_alert_with_bedrock env cfg webhook_data st =
     (Inr [(''severity'', JString ''HIGH''),
           (''category'', JString ''System Error''),
           (''summary'', JString (''Alert received but analysis failed: '' @ message e)),
           (''impact'', JString ''Unable to determine impact - manual review required''),
           (''recommendations'', JArray
              [JString ''Manual review required'',
               JString ''Check Meraki dashboard for details'',
               JString ''Contact system administrator if issues persist'']),
           (''requires_immediate_action'', JBool True),
           (''estimated_resolution_time'', JString ''Unknown'')], st2)"
proof -
  obtain st2 where "try_fallback_models env cfg (Some p) (fallback_models cfg) st1 = (None, st2)"
    using try_fallback_models_all_fail [OF others] by blast
  with prompt primary show ?thesis
    by (simp add: analyze_alert_with_bedrock_def create_fallback_analysis_def)
qed

text \<open>Every model is unavailable: the summary quotes the failure of the primary model
  \<open>A\<close>.\<close>

theorem exhausted_cascade_reports_primary_failure_witness:
  "\<exists>st2. analyze_alert_with_bedrock
     (example_env (loads_of []) (Inr ''prompt'') unavailable (Inr 200) (Inr ()))
     (abc_config [''A'', ''B'', ''C'']) JNull (init_state 0) =
     (Inr [(''severity'', JString ''HIGH''),
           (''category'', JString ''System Error''),
           (''summary'', JString ''Alert received but analysis failed: model A is unavailable''),
           (''impact'', JString ''Unable to determine impact - manual review required''),
           (''recommendations'', JArray
              [JString ''Manual review required'',
               JString ''Check Meraki dashboard for details'',
               JString ''Contact system administrator if issues persist'']),
           (''requires_immediate_action'', JBool True),
           (''estimated_resolution_time'', JString ''Unknown'')], st2)"
proof -
  let ?env = "example_env (loads_of []) (Inr ''prompt'') unavailable (Inr 200) (Inr ())"
  let ?cfg = "abc_config [''A'', ''B'', ''C'']"
  have prompt: "create_analysis_prompt ?env JNull = Inr ''prompt''"
    by (simp add: example_env_def)
  have fails: "invoke_bedrock_model ?env ?cfg ''prompt'' m s =
      (Inl (Exn ClientError (''model '' @ m @ '' is unavailable'')),
       s\<lparr>engine_log := engine_log s @ [m], world := Suc (world s),
         transport_log := transport_log s @ [m]\<rparr>)" for m s
    by (simp add: invoke_bedrock_model_def call_invoke_model_def example_env_def
        abc_config_def unavailable_def has_profile_def inference_profile_arn_def)
  have primary: "invoke_bedrock_model ?env ?cfg ''prompt'' (bedrock_model_id ?cfg) (init_state 0) =
      (Inl (Exn ClientError ''model A is unavailable''),
       \<lparr>world = 1, transport_log = [''A''], engine_log = [''A'']\<rparr>)"
    by code_simp
  have others: "\<forall>m s. m \<in> set (fallback_models ?cfg) \<and> m \<noteq> bedrock_model_id ?cfg \<longrightarrow>
      (\<exists>e' s'. invoke_bedrock_model ?env ?cfg ''prompt'' m s = (Inl e', s'))"
    using fails by simp
  show ?thesis
    using exhausted_cascade_reports_primary_failure [OF prompt primary others] by simp
qed

text \<open>The claim as stated fails: \<open>A\<close> fails first and \<open>B\<close> fails last, each with its own
  message, and the summary quotes the message of \<open>A\<close>, not the last one.\<close>

theorem exhausted_cascade_last_error_counterexample:
  "analyze_alert_with_bedrock
     (example_env (loads_of []) (Inr ''prompt'') unavailable (Inr 200) (Inr ()))
     (abc_config [''A'', ''B'']) JNull (init_state 0) =
     (Inr [(''severity'', JString ''HIGH''),
           (''category'', JString ''System Error''),
           (''summary'', JString ''Alert received but analysis failed: model A is unavailable''),
           (''impact'', JString ''Unable to determine impact - manual review required''),
           (''recommendations'', JArray
              [JString ''Manual review required'',
               JString ''Check Meraki dashboard for details'',
               JString ''Contact system administrator if issues persist'']),
           (''requires_immediate_action'', JBool True),
           (''estimated_resolution_time'', JString ''Unknown'')],
      \<lparr>world = 2, transport_log = [''A'', ''B''], engine_log = [''A'', ''B'']\<rparr>) \<and>
   invoke_bedrock_model
     (example_env (loads_of []) (Inr ''prompt'') unavailable (Inr 200) (Inr ()))
     (abc_config [''A'', ''B'']) ''prompt'' ''B''
     \<lparr>world = 1, transport_log = [''A''], engine_log = [''A'']\<rparr> =
     (Inl (Exn ClientError ''model B is unavailable''),
      \<lparr>world = 2, transport_log = [''A'', ''B''], engine_log = [''A'', ''B'']\<rparr>) \<and>
   \<not> contains ''model B is unavailable''
       ''Alert received but analysis failed: model A is unavailable''"
  by code_simp

section \<open>The normalizer\<close>

lemma map_of_setitem:
  "map_of (setitem k v ps) k' = (if k' = k then Some v else map_of ps k')"
  by (induction ps) auto

lemma map_of_fill_default:
  "map_of (fill_default ps (k, d)) k' =
     (if k' = k \<and> absent_or_falsy ps k then Some d else map_of ps k')"
  by (simp add: fill_default_def map_of_setitem)

lemma absent_or_falsy_fill_other:
  "k' \<noteq> k \<Longrightarrow> absent_or_falsy (fill_default ps (k, d)) k' = absent_or_falsy ps k'"
  by (simp add: absent_or_falsy_def map_of_fill_default)

lemma map_of_foldl_fill_default:
  "distinct (map fst ds) \<Longrightarrow>
   map_of (foldl fill_default ps ds) k =
     (case map_of ds k of
        None \<Rightarrow> map_of ps k
      | Some d \<Rightarrow> if absent_or_falsy ps k then Some d else map_of ps k)"
proof (induction ds arbitrary: ps)
  case Nil
  then show ?case by simp
next
  case (Cons kd ds)
  obtain k0 d0 where kd: "kd = (k0, d0)" by (cases kd)
  from Cons.prems kd have dist: "distinct (map fst ds)" and fresh: "map_of ds k0 = None"
    by (auto simp: map_of_eq_None_iff)
  show ?case
  proof (cases "k = k0")
    case True
    with Cons.IH [OF dist, of "fill_default ps (k0, d0)"] fresh kd show ?thesis
      by (simp add: map_of_fill_default)
  next
    case False
    with Cons.IH [OF dist, of "fill_default ps (k0, d0)"] kd show ?thesis
      by (simp add: map_of_fill_default absent_or_falsy_fill_other split: option.splits)
  qed
qed

lemma distinct_defaults: "distinct (map fst defaults)"
  by (simp add: defaults_def)

lemma filled_severity:
  "map_of (foldl fill_default ps defaults) ''severity'' =
     (if absent_or_falsy ps ''severity'' then Some (JString ''MEDIUM'') else map_of ps ''severity'')"
  by (simp add: map_of_foldl_fill_default [OF distinct_defaults]) (simp add: defaults_def)

lemma upper_MEDIUM: "upper ''MEDIUM'' \<in> set valid_severities"
  by code_simp


lemma filled_present:
  assumes "map_of defaults k = Some d"
  shows "\<exists>v. map_of (foldl fill_default ps defaults) k = Some v \<and> truthy v"
proof -
  have d: "truthy d"
    using assms by (auto simp: defaults_def split: if_splits)
  have "map_of (foldl fill_default ps defaults) k =
      (if absent_or_falsy ps k then Some d else map_of ps k)"
    using assms by (simp add: map_of_foldl_fill_default [OF distinct_defaults])
  with d show ?thesis
    by (auto simp: absent_or_falsy_def split: option.splits)
qed

text \<open>
  Claim C5, as amended. The severity is tested in capitals and stored as it came: when the
  normalizer returns, the severity of the result is a text whose capitalised form is a valid
  severity, namely the text of the reply itself when that is non-empty and valid in capitals,
  and \<^verbatim>\<open>MEDIUM\<close> in every other case. The reply \<^verbatim>\<open>{"severity":"low"}\<close> gives the
  severity \<^verbatim>\<open>low\<close> and the documented default in every other field.
\<close>

theorem severity_is_valid_in_capitals:
  assumes "validate_analysis_response (JObject ps) = Inr r"
  shows "\<exists>s. map_of r ''severity'' = Some (JString s) \<and> upper s \<in> set valid_severities \<and>
           s = (case map_of ps ''severity'' of
                  Some (JString s0) \<Rightarrow>
                    if s0 \<noteq> [] \<and> upper s0 \<in> set valid_severities then s0 else ''MEDIUM''
                | _ \<Rightarrow> ''MEDIUM'')"
proof (cases "absent_or_falsy ps ''severity''")
  case True
  then have filled: "map_of (foldl fill_default ps defaults) ''severity'' = Some (JString ''MEDIUM'')"
    by (simp add: filled_severity)
  with assms upper_MEDIUM have r: "r = foldl fill_default ps defaults"
    by (simp add: Let_def)
  from True have "(case map_of ps ''severity'' of
                  Some (JString s0) \<Rightarrow>
                    if s0 \<noteq> [] \<and> upper s0 \<in> set valid_severities then s0 else ''MEDIUM''
                | _ \<Rightarrow> ''MEDIUM'') = ''MEDIUM''"
    by (auto simp: absent_or_falsy_def split: option.splits json.splits)
  with r filled upper_MEDIUM show ?thesis by simp
next
  case False
  then obtain v where v: "map_of ps ''severity'' = Some v" "truthy v"
    by (auto simp: absent_or_falsy_def split: option.splits)
  with False have filled: "map_of (foldl fill_default ps defaults) ''severity'' = Some v"
    by (simp add: filled_severity)
  with assms obtain s0 where s0: "v = JString s0"
    by (cases v) (simp_all add: Let_def)
  with v have ne: "s0 \<noteq> []" by simp
  show ?thesis
  proof (cases "upper s0 \<in> set valid_severities")
    case True
    with assms filled s0 have "r = foldl fill_default ps defaults"
      by (simp add: Let_def)
    with filled s0 v ne True show ?thesis by simp
  next
    case False
    with assms filled s0
    have "r = setitem ''severity'' (JString ''MEDIUM'') (foldl fill_default ps defaults)"
      by (simp add: Let_def)
    with s0 v ne False upper_MEDIUM show ?thesis
      by (simp add: map_of_setitem)
  qed
qed


text \<open>The reply of the specification's example.\<close>

theorem severity_is_valid_in_capitals_witness:
  "validate_analysis_response (JObject [(''severity'', JString ''low'')]) =
     Inr [(''severity'', JString ''low''),
          (''category'', JString ''Unknown''),
          (''summary'', JString ''Alert received but analysis incomplete''),
          (''impact'', JString ''Unable to determine impact''),
          (''recommendations'', JArray
             [JString ''Manual review required'', JString ''Check Meraki dashboard'']),
          (''requires_immediate_action'', JBool True),
          (''estimated_resolution_time'', JString ''Unknown'')] \<and>
   (\<exists>s. map_of [(''severity'', JString ''low''),
          (''category'', JString ''Unknown''),
          (''summary'', JString ''Alert received but analysis incomplete''),
          (''impact'', JString ''Unable to determine impact''),
          (''recommendations'', JArray
             [JString ''Manual review required'', JString ''Check Meraki dashboard'']),
          (''requires_immediate_action'', JBool True),
          (''estimated_resolution_time'', JString ''Unknown'')] ''severity'' = Some (JString s) \<and>
        upper s \<in> set valid_severities \<and> s = ''low'')"
proof -
  have v: "validate_analysis_response (JObject [(''severity'', JString ''low'')]) =
     Inr [(''severity'', JString ''low''),
          (''category'', JString ''Unknown''),
          (''summary'', JString ''Alert received but analysis incomplete''),
          (''impact'', JString ''Unable to determine impact''),
          (''recommendations'', JArray
             [JString ''Manual review required'', JString ''Check Meraki dashboard'']),
          (''requires_immediate_action'', JBool True),
          (''estimated_resolution_time'', JString ''Unknown'')]"
    by code_simp
  have low: "upper ''low'' \<in> set valid_severities"
    by code_simp
  from severity_is_valid_in_capitals [OF v] low v show ?thesis
    by simp
qed

text \<open>The claim as stated fails: for the reply of the example the severity of the result is
  \<^verbatim>\<open>low\<close>, which is not \<^verbatim>\<open>LOW\<close> and is none of the five severities.\<close>

theorem severity_not_capitalised_counterexample:
  "parse_bedrock_response low_loads low_reply =
     Inr [(''severity'', JString ''low''),
          (''category'', JString ''Unknown''),
          (''summary'', JString ''Alert received but analysis incomplete''),
          (''impact'', JString ''Unable to determine impact''),
          (''recommendations'', JArray
             [JString ''Manual review required'', JString ''Check Meraki dashboard'']),
          (''requires_immediate_action'', JBool True),
          (''estimated_resolution_time'', JString ''Unknown'')] \<and>
   ''low'' \<noteq> ''LOW'' \<and> ''low'' \<notin> set valid_severities"
  by code_simp

lemma validate_object_result:
  assumes "validate_analysis_response (JObject ps) = Inr r"
  shows "r = foldl fill_default ps defaults \<or>
         r = setitem ''severity'' (JString ''MEDIUM'') (foldl fill_default ps defaults)"
  using assms by (auto simp: Let_def split: option.splits json.splits if_splits)

lemma validate_populated:
  assumes "validate_analysis_response (JObject ps) = Inr r" and "map_of defaults k = Some d"
  shows "\<exists>v. map_of r k = Some v \<and> truthy v"
proof -
  from filled_present [OF assms(2)] obtain v
    where v: "map_of (foldl fill_default ps defaults) k = Some v" "truthy v"
    by blast
  from validate_object_result [OF assms(1)] show ?thesis
  proof
    assume "r = foldl fill_default ps defaults"
    with v show ?thesis by simp
  next
    assume "r = setitem ''severity'' (JString ''MEDIUM'') (foldl fill_default ps defaults)"
    with v show ?thesis by (simp add: map_of_setitem)
  qed
qed


lemma validate_no_parse_error:
  "validate_analysis_response v = Inl e \<Longrightarrow> cls e \<noteq> JSONDecodeError"
  by (cases v) (auto simp: Let_def no_attribute_def split: option.splits json.splits if_splits)






subsection \<open>Round trip\<close>

lemma foldl_fill_default_unchanged:
  "\<forall>kd \<in> set ds. \<not> absent_or_falsy ps (fst kd) \<Longrightarrow> foldl fill_default ps ds = ps"
  by (induction ds) (simp_all add: fill_default_def)

text \<open>An object in which each of the seven fields is truthy, with a severity that is valid
  in capitals, is returned as it is, the severity included.\<close>

lemma validate_round_trip_truthy:
  assumes "\<forall>kd \<in> set defaults. \<not> absent_or_falsy ps (fst kd)"
    and "map_of ps ''severity'' = Some (JString s)" and "upper s \<in> set valid_severities"
  shows "validate_analysis_response (JObject ps) = Inr ps"
  using assms by (simp add: foldl_fill_default_unchanged)

text \<open>
  Claim C6. The claim asks that an object with all fields valid passes unchanged, with
  \<^verbatim>\<open>requires_immediate_action\<close> of either truth value. The loop of the normalizer tests
  \<^verbatim>\<open>not response[key]\<close>, so the valid value \<^verbatim>\<open>false\<close> counts as missing and is replaced
  by the default \<^verbatim>\<open>true\<close>: on a complete assessment with \<^verbatim>\<open>false\<close> the code returns the
  assessment with \<^verbatim>\<open>true\<close>, while the same assessment with \<^verbatim>\<open>true\<close> passes unchanged.
\<close>

theorem normalizer_overwrites_false:
  "validate_analysis_response (JObject (complete_assessment False)) =
     Inr (complete_assessment True) \<and>
   complete_assessment True \<noteq> complete_assessment False \<and>
   validate_analysis_response (JObject (complete_assessment True)) =
     Inr (complete_assessment True)"
  by code_simp

section \<open>Responses of the webhook handler\<close>





















section \<open>The result of the cascade\<close>

lemma fallback_populated:
  "map_of defaults k = Some d \<Longrightarrow>
     \<exists>v. map_of (create_fallback_analysis msg) k = Some v \<and> truthy v"
  by (auto simp: defaults_def create_fallback_analysis_def split: if_splits)

lemma validate_returns_on_object:
  "validate_analysis_response v = Inr r \<Longrightarrow> \<exists>ps. v = JObject ps"
  by (cases v) (auto split: if_splits)

lemma parse_bedrock_response_populated:
  assumes "parse_bedrock_response loads raw = Inr r" and d: "map_of defaults k = Some d"
  shows "\<exists>v. map_of r k = Some v \<and> truthy v"
proof (cases "loads (clean_response_text raw)")
  case (Inl e)
  with assms(1) have "r = create_fallback_analysis ''JSON parsing failed''"
    by (simp add: parse_bedrock_response_def split: if_splits)
  with d show ?thesis by (simp add: fallback_populated)
next
  case (Inr parsed)
  show ?thesis
  proof (cases "validate_analysis_response parsed")
    case (Inl e)
    with Inr assms(1) have "r = create_fallback_analysis ''JSON parsing failed''"
      by (simp add: parse_bedrock_response_def split: if_splits)
    with d show ?thesis by (simp add: fallback_populated)
  next
    case valid: (Inr r')
    with Inr assms(1) have "r' = r" by (simp add: parse_bedrock_response_def)
    with valid obtain ps where "validate_analysis_response (JObject ps) = Inr r"
      using validate_returns_on_object by blast
    then show ?thesis using d by (rule validate_populated)
  qed
qed

lemma read_reply_populated:
  assumes "read_reply loads reply = Inr r" and "map_of defaults k = Some d"
  shows "\<exists>v. map_of r k = Some v \<and> truthy v"
proof -
  from assms(1) obtain raw where "parse_bedrock_response loads raw = Inr r"
    by (auto simp: read_reply_def split: sum.splits json.splits)
  then show ?thesis using assms(2) by (rule parse_bedrock_response_populated)
qed

lemma invoke_bedrock_model_populated:
  assumes "invoke_bedrock_model env cfg p model_id st = (Inr r, st')"
    and "map_of defaults k = Some d"
  shows "\<exists>v. map_of r k = Some v \<and> truthy v"
proof -
  from assms(1) obtain reply where "read_reply (json_loads env) reply = Inr r"
    by (auto simp: invoke_bedrock_model_def Let_def split: prod.splits sum.splits if_splits)
  then show ?thesis using assms(2) by (rule read_reply_populated)
qed

lemma try_fallback_models_populated:
  assumes "try_fallback_models env cfg prompt ms st = (Some (Inr r), st')"
    and "map_of defaults k = Some d"
  shows "\<exists>v. map_of r k = Some v \<and> truthy v"
  using assms(1)
proof (induction ms arbitrary: st)
  case Nil
  then show ?case by simp
next
  case (Cons m ms)
  show ?case
  proof (cases "m = bedrock_model_id cfg")
    case True
    with Cons show ?thesis by simp
  next
    case False
    show ?thesis
    proof (cases prompt)
      case None
      with False Cons.prems have "try_fallback_models env cfg prompt ms st = (Some (Inr r), st')"
        by simp
      then show ?thesis by (rule Cons.IH)
    next
      case (Some p)
      obtain r1 st1 where i: "invoke_bedrock_model env cfg p m st = (r1, st1)"
        by (cases "invoke_bedrock_model env cfg p m st")
      show ?thesis
      proof (cases r1)
        case (Inr a)
        with False Some i Cons.prems have "invoke_bedrock_model env cfg p m st = (Inr r, st1)"
          by simp
        then show ?thesis using assms(2) by (rule invoke_bedrock_model_populated)
      next
        case (Inl e)
        with False Some i Cons.prems
        have "try_fallback_models env cfg prompt ms st1 = (Some (Inr r), st')"
          by simp
        then show ?thesis by (rule Cons.IH)
      qed
    qed
  qed
qed

lemma analyze_populated:
  assumes "analyze_alert_with_bedrock env cfg webhook_data st = (Inr r, st')"
    and d: "map_of defaults k = Some d"
  shows "\<exists>v. map_of r k = Some v \<and> truthy v"
proof -
  have after: "\<exists>v. map_of r k = Some v \<and> truthy v"
    if "(case try_fallback_models env cfg prompt (fallback_models cfg) sta of
          (Some x, st2) \<Rightarrow> (x, st2)
        | (None, st2) \<Rightarrow> (Inr (create_fallback_analysis msg), st2)) = (Inr r, st')"
    for prompt sta msg
  proof -
    obtain x st2 where t: "try_fallback_models env cfg prompt (fallback_models cfg) sta = (x, st2)"
      by (cases "try_fallback_models env cfg prompt (fallback_models cfg) sta")
    show ?thesis
    proof (cases x)
      case None
      with t that have "r = create_fallback_analysis msg" by simp
      with d show ?thesis by (simp add: fallback_populated)
    next
      case (Some y)
      with t that have "try_fallback_models env cfg prompt (fallback_models cfg) sta =
          (Some (Inr r), st')"
        by simp
      then show ?thesis using d by (rule try_fallback_models_populated)
    qed
  qed
  show ?thesis
  proof (cases "create_analysis_prompt env webhook_data")
    case (Inl e)
    with assms(1) show ?thesis
      using after [where prompt = None and sta = st and msg = "message e"] by (simp add: analyze_alert_with_bedrock_def)
  next
    case (Inr p)
    obtain r1 st1 where i: "invoke_bedrock_model env cfg p (bedrock_model_id cfg) st = (r1, st1)"
      by (cases "invoke_bedrock_model env cfg p (bedrock_model_id cfg) st")
    show ?thesis
    proof (cases r1)
      case ok: (Inr result)
      with Inr i assms(1) have "invoke_bedrock_model env cfg p (bedrock_model_id cfg) st =
          (Inr r, st1)"
        by (simp add: analyze_alert_with_bedrock_def)
      then show ?thesis using d by (rule invoke_bedrock_model_populated)
    next
      case (Inl e)
      with Inr i assms(1) show ?thesis
        using after [where prompt = "Some p" and sta = st1 and msg = "message e"] by (simp add: analyze_alert_with_bedrock_def)
    qed
  qed
qed

text \<open>
  Claim C1. \<^verbatim>\<open>_analyze_alert_with_bedrock\<close> returns an assessment and raises nothing, for
  every environment, configuration, payload and state: when the prompt construction raises,
  when the primary model fails, and when every fallback model fails as well. In the
  assessment each of the seven fields is present and truthy.
\<close>

theorem analyze_never_raises:
  "\<exists>result st'. analyze_alert_with_bedrock env cfg webhook_data st = (Inr result, st') \<and>
     (\<forall>k d. map_of defaults k = Some d \<longrightarrow> (\<exists>v. map_of result k = Some v \<and> truthy v))"
proof -
  obtain result st' where a: "analyze_alert_with_bedrock env cfg webhook_data st = (Inr result, st')"
    using analyze_returns by blast
  then have "\<forall>k d. map_of defaults k = Some d \<longrightarrow> (\<exists>v. map_of result k = Some v \<and> truthy v)"
    using analyze_populated by blast
  with a show ?thesis by blast
qed

text \<open>The prompt construction fails, or every model of the list fails: an assessment with a
  severity is returned.\<close>

theorem analyze_never_raises_witness:
  "(\<exists>result st'. analyze_alert_with_bedrock
       (example_env (loads_of []) (Inl (Exn TypeError ''not serializable'')) unavailable
          (Inr 200) (Inr ()))
       (MerakiAlertProcessor_init (\<lambda>name. None)) (JObject [])
       (init_state 0) = (Inr result, st') \<and>
       (\<exists>v. map_of result ''severity'' = Some v \<and> truthy v)) \<and>
   (\<exists>result st'. analyze_alert_with_bedrock
       (example_env (loads_of []) (Inr ''prompt'') unavailable (Inr 200) (Inr ()))
       (MerakiAlertProcessor_init (\<lambda>name. None)) (JObject [])
       (init_state 0) = (Inr result, st') \<and>
       (\<exists>v. map_of result ''severity'' = Some v \<and> truthy v))"
proof -
  have d: "map_of defaults ''severity'' = Some (JString ''MEDIUM'')"
    by code_simp
  have "\<exists>result st'. analyze_alert_with_bedrock env cfg webhook_data st = (Inr result, st') \<and>
       (\<exists>v. map_of result ''severity'' = Some v \<and> truthy v)" for env :: "nat env"
    and cfg webhook_data st
  proof -
    from analyze_never_raises [of env cfg webhook_data st] obtain result st' where
      r: "analyze_alert_with_bedrock env cfg webhook_data st = (Inr result, st')"
      "\<forall>k d. map_of defaults k = Some d \<longrightarrow> (\<exists>v. map_of result k = Some v \<and> truthy v)"
      by (elim exE conjE)
    from r(2) [rule_format, OF d] r(1) show ?thesis
      by (intro exI [of _ result] exI [of _ st'] conjI)
  qed
  then show ?thesis by (intro conjI)
qed

end
